theory Spec2Isabelle
  imports Main
begin

section \<open>Kubernetes objects as the initializer reads and writes them\<close>

text \<open>
  The controller touches an object only through \<open>item.metadata.name\<close>,
  \<open>item.metadata.namespace\<close>, \<open>item.metadata.initializers.pending\<close> (a list of entries
  with a \<open>name\<close>) and \<open>item.metadata.initializers.result\<close> (a \<open>V1Status\<close>). The fields
  \<open>initializers\<close>, \<open>pending\<close> and \<open>result\<close> may be \<open>None\<close> and are options here;
  \<open>metadata\<close>, which the API server sets on every object it lists, is always present.
  The rest of an object is the opaque field \<open>spec\<close>.
\<close>

record V1Status =
  message :: string
  reason :: string
  code :: int
  details :: "string option"
  status :: string

record V1Initializer =
  name :: string

record V1Initializers =
  pending :: "V1Initializer list option"
  result :: "V1Status option"

record V1ObjectMeta =
  name :: string
  namespace :: string
  initializers :: "V1Initializers option"

record item =
  metadata :: V1ObjectMeta
  spec :: string

section \<open>Exceptions\<close>

text \<open>
  \<open>Rejection\<close> is the repository's own exception class (labelizer/rejection.py); the others
  are the Python and urllib3 exceptions the code can meet. \<open>KeyboardInterrupt\<close> and
  \<open>SystemExit\<close> derive from \<open>BaseException\<close> only, so \<open>except Exception\<close> lets them through.
\<close>

datatype py_exception =
    Rejection V1Status
  | AttributeError string
  | UnboundLocalError string
  | NameError string
  | TypeError string
  | ValueError string
  | ReadTimeoutError
  | ApiException int
  | ProtocolError string
  | KeyboardInterrupt
  | SystemExit

fun is_Exception :: "py_exception \<Rightarrow> bool" where
  "is_Exception KeyboardInterrupt = False"
| "is_Exception SystemExit = False"
| "is_Exception e = True"

text \<open>
  \<open>Rejection.__init__(self, message, reason=None, code=400, details=None)\<close>: a falsy
  \<open>reason\<close> (\<open>None\<close> or the empty string) is replaced by the message; the status is always
  \<open>'Failure'\<close>. The value is the \<open>status\<close> attribute of the exception.
\<close>

definition Rejection_init :: "string \<Rightarrow> string option \<Rightarrow> int \<Rightarrow> string option \<Rightarrow> V1Status" where
  "Rejection_init msg reason_arg code_arg details_arg =
     (let reason' = (case reason_arg of
                       None \<Rightarrow> msg
                     | Some r \<Rightarrow> if r = [] then msg else r)
      in \<lparr>message = msg, reason = reason', code = code_arg, details = details_arg,
          status = ''Failure''\<rparr>)"

section \<open>labelizer/resource_handler.py\<close>

text \<open>
  A function of the Kubernetes client is named by its API class and its method, as in
  \<open>core_client.patch_namespaced_pod\<close> with \<open>core_client = CoreV1Api(api_client)\<close>.
\<close>

datatype api_fn = ApiFn string string

fun api_method :: "api_fn \<Rightarrow> string" where
  "api_method (ApiFn cls m) = m"

text \<open>
  The Python client sends \<open>PUT\<close> (the whole object replaces the stored one) for a
  \<open>replace_\<close> method and \<open>PATCH\<close> (a merge into the stored one) for a \<open>patch_\<close> method.
\<close>

definition is_replace_method :: "api_fn \<Rightarrow> bool" where
  "is_replace_method f = (take 8 (api_method f) = ''replace_'')"

definition is_patch_method :: "api_fn \<Rightarrow> bool" where
  "is_patch_method f = (take 6 (api_method f) = ''patch_'')"

text \<open>
  What a call of \<open>handle_item\<close> returns or raises.
\<close>

datatype handler_result = Returned item | Raised py_exception

text \<open>
  Python passes the item by reference, so a handler can change it in place, whether it then
  returns or raises. A call of \<open>handle_item\<close> is described by everything its caller reads
  afterwards:
  \<^item> \<open>outcome\<close>: the object returned (as it is when the call returns) or the exception raised;
  \<^item> \<open>item_after\<close>: the object that was passed in, as the call leaves it. This is what
    \<open>updated_item = item\<close> on line 49 names after a \<open>Rejection\<close>;
  \<^item> \<open>pending_after\<close>: what \<open>initializers.pending\<close> on line 52 reads, where \<open>initializers\<close>
    is the object that \<open>handle_update\<close> bound on line 38, before the call. The handler can
    have changed that list in place, or have put another \<open>initializers\<close> object into the
    item, in which case this one still holds the old list.
\<close>

record handler_effect =
  outcome :: handler_result
  item_after :: item
  pending_after :: "V1Initializer list option"

text \<open>
  \<open>labelizer.ResourceHandler\<close>. The method \<open>handle_item\<close> is meant to be overridden by
  subclasses, so it is a field of the handler value.
\<close>

record labelizer_ResourceHandler =
  name :: string
  list_item_for_all_namespaces :: api_fn
  patch_namespaced_item :: api_fn
  handle_item :: "item \<Rightarrow> handler_effect"

text \<open>
  What \<open>item.metadata.initializers.pending\<close> reads on an item (\<open>None\<close> here also when there
  is no \<open>initializers\<close> object), and the effect of a method that changes nothing in place:
  it only returns or raises, as \<open>h\<close> says.
\<close>

definition read_pending :: "item \<Rightarrow> V1Initializer list option" where
  "read_pending it =
     (case initializers (metadata it) of
        None \<Rightarrow> None
      | Some inits \<Rightarrow> pending inits)"

definition leaves_item_alone :: "(item \<Rightarrow> handler_result) \<Rightarrow> item \<Rightarrow> handler_effect" where
  "leaves_item_alone h it =
     \<lparr>outcome = h it, item_after = it, pending_after = read_pending it\<rparr>"

text \<open>
  Attribute lookup on an object of the client's model classes: an attribute the class does
  not define raises \<open>AttributeError\<close>.
\<close>

datatype py_value = MetaValue V1ObjectMeta | StrValue string

definition item_getattr :: "item \<Rightarrow> string \<Rightarrow> py_exception + py_value" where
  "item_getattr it a =
     (if a = ''metadata'' then Inr (MetaValue (metadata it))
      else if a = ''spec'' then Inr (StrValue (spec it))
      else Inl (AttributeError a))"

fun value_getattr :: "py_value \<Rightarrow> string \<Rightarrow> py_exception + string" where
  "value_getattr (MetaValue m) a =
     (if a = ''name'' then Inr (V1ObjectMeta.name m)
      else if a = ''namespace'' then Inr (namespace m)
      else Inl (AttributeError a))"
| "value_getattr (StrValue s) a = Inl (AttributeError a)"

text \<open>
  The body of \<open>ResourceHandler.handle_item\<close>:
  \<^verbatim>\<open>
  raise Rejection(
      message='Handler not implemented; rejecting {}.'.format(item.metadtata.name),
      reason='RejectAll')
  \<close>
  The argument of \<open>Rejection\<close> is evaluated first; it reads the attribute \<open>metadtata\<close>.
  The method changes nothing in place.
\<close>

definition ResourceHandler_handle_item :: "item \<Rightarrow> handler_result" where
  "ResourceHandler_handle_item it =
     (case item_getattr it ''metadtata'' of
        Inl e \<Rightarrow> Raised e
      | Inr m \<Rightarrow>
          (case value_getattr m ''name'' of
             Inl e \<Rightarrow> Raised e
           | Inr n \<Rightarrow>
               Raised (Rejection (Rejection_init
                 (''Handler not implemented; rejecting '' @ n @ ''.'')
                 (Some ''RejectAll'') 400 None))))"

definition PodHandler :: labelizer_ResourceHandler where
  "PodHandler =
     \<lparr>name = ''pod'',
      list_item_for_all_namespaces = ApiFn ''CoreV1Api'' ''list_pod_for_all_namespaces'',
      patch_namespaced_item = ApiFn ''CoreV1Api'' ''patch_namespaced_pod'',
      handle_item = leaves_item_alone ResourceHandler_handle_item\<rparr>"

definition JobHandler :: labelizer_ResourceHandler where
  "JobHandler =
     \<lparr>name = ''job'',
      list_item_for_all_namespaces = ApiFn ''BatchV1Api'' ''list_job_for_all_namespaces'',
      patch_namespaced_item = ApiFn ''BatchV1Api'' ''patch_namespaced_job'',
      handle_item = leaves_item_alone ResourceHandler_handle_item\<rparr>"

text \<open>
  \<open>DeploymentHandler.__init__\<close> binds \<open>extensions_client\<close> and then reads \<open>batch_client\<close>,
  which is not defined in that scope.
\<close>

definition DeploymentHandler :: "py_exception + labelizer_ResourceHandler" where
  "DeploymentHandler = Inl (NameError ''batch_client'')"

definition DaemonSetHandler :: labelizer_ResourceHandler where
  "DaemonSetHandler =
     \<lparr>name = ''daemonset'',
      list_item_for_all_namespaces =
        ApiFn ''ExtensionsV1beta1Api'' ''list_daemon_set_for_all_namespaces'',
      patch_namespaced_item = ApiFn ''ExtensionsV1beta1Api'' ''patch_namespaced_daemon_set'',
      handle_item = leaves_item_alone ResourceHandler_handle_item\<rparr>"

text \<open>
  The API server, as far as the controller sees it: what a list call returns (or raises) and
  whether an update call raises. Calls made are recorded in a trace.
\<close>

record api_server =
  list_response :: "api_fn \<Rightarrow> py_exception + item list"
  update_response :: "api_fn \<Rightarrow> string \<Rightarrow> string \<Rightarrow> item \<Rightarrow> py_exception option"

datatype call =
    ListCall api_fn string
  | HandleItem item
  | UpdateCall api_fn string string item

type_synonym run = "call list \<times> py_exception option"

definition list_all_items ::
  "labelizer_ResourceHandler \<Rightarrow> api_server \<Rightarrow> call \<times> (py_exception + item list)" where
  "list_all_items self k =
     (ListCall (list_item_for_all_namespaces self) ''true'',
      list_response k (list_item_for_all_namespaces self))"

definition patch_item :: "labelizer_ResourceHandler \<Rightarrow> api_server \<Rightarrow> item \<Rightarrow> run" where
  "patch_item self k it =
     ([UpdateCall (patch_namespaced_item self) (V1ObjectMeta.name (metadata it))
         (namespace (metadata it)) it],
      update_response k (patch_namespaced_item self) (V1ObjectMeta.name (metadata it))
         (namespace (metadata it)) it)"

section \<open>labelizer/label_controller.py\<close>

record LabelController =
  initializer_name :: string
  handler :: labelizer_ResourceHandler

text \<open>
  \<open>updated_item.metadata.initializers.result = v\<close> and
  \<open>updated_item.metadata.initializers.pending = v\<close>: setting an attribute on \<open>None\<close> raises.
\<close>

definition set_result :: "item \<Rightarrow> V1Status \<Rightarrow> py_exception + item" where
  "set_result it st =
     (case initializers (metadata it) of
        None \<Rightarrow> Inl (AttributeError ''result'')
      | Some inits \<Rightarrow>
          Inr (it\<lparr>metadata := (metadata it)\<lparr>initializers := Some (inits\<lparr>result := Some st\<rparr>)\<rparr>\<rparr>))"

definition set_pending :: "item \<Rightarrow> V1Initializer list \<Rightarrow> py_exception + item" where
  "set_pending it q =
     (case initializers (metadata it) of
        None \<Rightarrow> Inl (AttributeError ''pending'')
      | Some inits \<Rightarrow>
          Inr (it\<lparr>metadata := (metadata it)\<lparr>initializers := Some (inits\<lparr>pending := Some q\<rparr>)\<rparr>\<rparr>))"

text \<open>
  Lines 51 to 53 of \<open>handle_update\<close>:
  \<^verbatim>\<open>
  updated_item.metadata.initializers.pending = initializers.pending[1:]
  self.handler.patch_item(updated_item)
  \<close>
  The right-hand side is evaluated first: \<open>pending_now\<close> is what \<open>initializers.pending\<close>
  reads at this point, after the handler has run, and slicing \<open>None\<close> raises \<open>TypeError\<close>.
  Then the slice is written into the object to send, which is sent.
\<close>

definition advance ::
  "LabelController \<Rightarrow> api_server \<Rightarrow> item \<Rightarrow> V1Initializer list option \<Rightarrow> run" where
  "advance self k updated_item pending_now =
     (case pending_now of
        None \<Rightarrow> ([], Some (TypeError ''NoneType object is not subscriptable''))
      | Some q \<Rightarrow>
          (case set_pending updated_item (drop 1 q) of
             Inl e \<Rightarrow> ([], Some e)
           | Inr u \<Rightarrow> patch_item (handler self) k u))"

text \<open>
  Lines 43 to 50: the \<open>try\<close> block. After a \<open>Rejection\<close> the object to send is \<open>item\<close>, the
  very object the handler was given, in the state the handler left it, with the rejection's
  status written into it. An exception other than \<open>Rejection\<close> is not caught and leaves
  \<open>handle_update\<close>.
\<close>

definition handled :: "LabelController \<Rightarrow> item \<Rightarrow> py_exception + item" where
  "handled self it =
     (case outcome (handle_item (handler self) it) of
        Returned updated_item \<Rightarrow> Inr updated_item
      | Raised exn \<Rightarrow>
          (case exn of
             Rejection st \<Rightarrow> set_result (item_after (handle_item (handler self) it)) st
           | _ \<Rightarrow> Inl exn))"

definition admit :: "LabelController \<Rightarrow> api_server \<Rightarrow> item \<Rightarrow> run" where
  "admit self k it =
     (case handled self it of
        Inl e \<Rightarrow> ([HandleItem it], Some e)
      | Inr updated_item \<Rightarrow>
          (case advance self k updated_item (pending_after (handle_item (handler self) it)) of
             (t, r) \<Rightarrow> (HandleItem it # t, r)))"

text \<open>
  The body of the \<open>for\<close> loop, lines 38 to 53. The condition
  \<open>initializers and initializers.pending and initializers.pending[0].name == self.initializer_name\<close>
  is evaluated left to right with Python's truthiness: \<open>None\<close> and the empty list are false.
\<close>

definition loop_body :: "LabelController \<Rightarrow> api_server \<Rightarrow> item \<Rightarrow> run" where
  "loop_body self k it =
     (case initializers (metadata it) of
        None \<Rightarrow> ([], None)
      | Some inits \<Rightarrow>
          (case pending inits of
             None \<Rightarrow> ([], None)
           | Some q \<Rightarrow>
               (case q of
                  [] \<Rightarrow> ([], None)
                | first # rest \<Rightarrow>
                    if V1Initializer.name first = initializer_name self
                    then admit self k it
                    else ([], None))))"

fun for_items :: "LabelController \<Rightarrow> api_server \<Rightarrow> item list \<Rightarrow> run" where
  "for_items self k [] = ([], None)"
| "for_items self k (it # items) =
     (case loop_body self k it of
        (t, Some e) \<Rightarrow> (t, Some e)
      | (t, None) \<Rightarrow> (case for_items self k items of (t', r) \<Rightarrow> (t @ t', r)))"

definition handle_update :: "LabelController \<Rightarrow> api_server \<Rightarrow> run" where
  "handle_update self k =
     (case list_all_items (handler self) k of
        (c, Inl e) \<Rightarrow> ([c], Some e)
      | (c, Inr items) \<Rightarrow> (case for_items self k items of (t, r) \<Rightarrow> (c # t, r)))"

text \<open>The condition of the \<open>if\<close> on lines 39 and 40, on its own.\<close>

definition gate :: "string \<Rightarrow> item \<Rightarrow> bool" where
  "gate n it =
     (case initializers (metadata it) of
        None \<Rightarrow> False
      | Some inits \<Rightarrow>
          (case pending inits of
             None \<Rightarrow> False
           | Some q \<Rightarrow>
               (case q of
                  [] \<Rightarrow> False
                | first # rest \<Rightarrow> V1Initializer.name first = n)))"

text \<open>
  The specification's reading of an object: its initializer queue, where an absent
  \<open>initializers\<close> field and an absent \<open>pending\<close> list both count as the empty queue, and
  \<open>isEligible\<close> in the specification's words: the queue is non-empty and its first entry's
  name equals the initializer name.
\<close>

definition initializerQueue :: "item \<Rightarrow> V1Initializer list" where
  "initializerQueue it =
     (case initializers (metadata it) of
        None \<Rightarrow> []
      | Some inits \<Rightarrow> (case pending inits of None \<Rightarrow> [] | Some q \<Rightarrow> q))"

definition isEligible_spec :: "item \<Rightarrow> string \<Rightarrow> bool" where
  "isEligible_spec it n =
     (initializerQueue it \<noteq> [] \<and> V1Initializer.name (hd (initializerQueue it)) = n)"

section \<open>ai2/kubernetes/initializer/resource_handler.py\<close>

text \<open>
  \<open>ai2.kubernetes.initializer.ResourceHandler\<close>; the fields are the attributes
  \<open>name\<close>, \<open>_list_all_items\<close>, \<open>_update_item\<close> and \<open>_request_timeout_seconds\<close>.
\<close>

record initializer_ResourceHandler =
  name :: string
  attr_list_all_items :: api_fn
  attr_update_item :: api_fn
  attr_request_timeout_seconds :: int

text \<open>
  The keyword arguments of a watch request. The callback passed is always the closure
  \<open>handle_response\<close> of the method that makes the call.
\<close>

datatype callback = handle_response_closure

record watch_kwargs =
  include_uninitialized :: bool
  watch :: bool
  callback :: callback
  request_timeout :: "int option"
  preload_content :: bool

text \<open>
  A decoded event is the dictionary \<open>unmarshal_event\<close> returns, with its keys \<open>'type'\<close> and
  \<open>'object'\<close>. A response is what the loop
  \<open>for line in iter_resp_lines(response): event = watch.unmarshal_event(line, return_type)\<close>
  meets, one element per iteration: the decoded event, or the exception raised by reading or
  decoding. The end of the list is the end of the stream.
\<close>

datatype event = Event string item

fun event_type :: "event \<Rightarrow> string" where
  "event_type (Event t obj) = t"

fun event_object :: "event \<Rightarrow> item" where
  "event_object (Event t obj) = obj"

type_synonym response = "(py_exception + event) list"

text \<open>What a watcher does that its surroundings can see, in order.\<close>

datatype effect =
    ItemCallback item
  | ErrorCallback py_exception
  | HandleSingleItem item
  | Close
  | ReleaseConn
  | WatchCall api_fn watch_kwargs

type_synonym session = "effect list \<times> py_exception option"

text \<open>
  The \<open>for\<close> loop of \<open>handle_response\<close>, lines 72 to 80. The local variable \<open>item\<close> is
  bound by the first \<open>ADDED\<close> or \<open>MODIFIED\<close> event only; the \<open>else\<close> branch formats a log
  message from \<open>item.metadata.namespace\<close> and \<open>item.metadata.name\<close>, and reading a local
  variable that is not bound yet raises \<open>UnboundLocalError\<close>. A callback returns \<open>None\<close> here
  when it returns, and the exception when it raises.
\<close>

fun handle_lines ::
  "(item \<Rightarrow> py_exception option) \<Rightarrow> item option \<Rightarrow> response \<Rightarrow> session" where
  "handle_lines item_callback local_item [] = ([], None)"
| "handle_lines item_callback local_item (Inl e # lines) = ([], Some e)"
| "handle_lines item_callback local_item (Inr ev # lines) =
     (if event_type ev = ''MODIFIED'' \<or> event_type ev = ''ADDED'' then
        (case item_callback (event_object ev) of
           Some e \<Rightarrow> ([ItemCallback (event_object ev)], Some e)
         | None \<Rightarrow>
             (case handle_lines item_callback (Some (event_object ev)) lines of
                (t, r) \<Rightarrow> (ItemCallback (event_object ev) # t, r)))
      else
        (case local_item of
           None \<Rightarrow> ([], Some (UnboundLocalError ''item''))
         | Some it \<Rightarrow> handle_lines item_callback (Some it) lines))"

text \<open>
  The \<open>except\<close> clauses, lines 81 to 87, in their order: \<open>ReadTimeoutError\<close> is logged and
  dropped, any other \<open>Exception\<close> goes to \<open>error_callback\<close> (which may raise itself), and an
  exception that is no \<open>Exception\<close> is not caught.
\<close>

definition except_clauses ::
  "(py_exception \<Rightarrow> py_exception option) \<Rightarrow> py_exception option \<Rightarrow> session" where
  "except_clauses error_callback raised =
     (case raised of
        None \<Rightarrow> ([], None)
      | Some e \<Rightarrow>
          if e = ReadTimeoutError then ([], None)
          else if is_Exception e then ([ErrorCallback e], error_callback e)
          else ([], Some e))"

definition watch_request :: "initializer_ResourceHandler \<Rightarrow> effect" where
  "watch_request self =
     WatchCall (attr_list_all_items self)
       \<lparr>include_uninitialized = True, watch = True, callback = handle_response_closure,
        request_timeout = Some (attr_request_timeout_seconds self), preload_content = False\<rparr>"

text \<open>
  \<open>handle_response\<close>, lines 66 to 97: the loop, the \<open>except\<close> clauses, the \<open>finally\<close> block
  (\<open>response.close()\<close>, \<open>response.release_conn()\<close>) and, when no exception is left, the
  call of \<open>self._list_all_items\<close> that follows the \<open>try\<close> statement. The two statements
  before the \<open>try\<close> (building the \<open>Watch\<close> object and reading the return type off the list
  function's docstring) and the two calls of the \<open>finally\<close> block belong to the client
  library and are taken to return.
\<close>

definition handle_response ::
  "initializer_ResourceHandler \<Rightarrow> (item \<Rightarrow> py_exception option) \<Rightarrow>
   (py_exception \<Rightarrow> py_exception option) \<Rightarrow> response \<Rightarrow> session" where
  "handle_response self item_callback error_callback resp =
     (case handle_lines item_callback None resp of
        (t, raised) \<Rightarrow>
          (case except_clauses error_callback raised of
             (t', Some e) \<Rightarrow> (t @ t' @ [Close, ReleaseConn], Some e)
           | (t', None) \<Rightarrow> (t @ t' @ [Close, ReleaseConn] @ [watch_request self], None)))"

text \<open>
  \<open>async_list_items\<close> makes the first watch request; each request is answered by a response
  that \<open>handle_response\<close> handles. The responses are given in the order the server sends
  them; a session that ends with an exception makes no further request.
\<close>

fun sessions ::
  "initializer_ResourceHandler \<Rightarrow> (item \<Rightarrow> py_exception option) \<Rightarrow>
   (py_exception \<Rightarrow> py_exception option) \<Rightarrow> response list \<Rightarrow> effect list" where
  "sessions self item_callback error_callback [] = []"
| "sessions self item_callback error_callback (resp # resps) =
     (case handle_response self item_callback error_callback resp of
        (t, Some e) \<Rightarrow> t
      | (t, None) \<Rightarrow> t @ sessions self item_callback error_callback resps)"

definition async_list_items ::
  "initializer_ResourceHandler \<Rightarrow> (item \<Rightarrow> py_exception option) \<Rightarrow>
   (py_exception \<Rightarrow> py_exception option) \<Rightarrow> response list \<Rightarrow> effect list" where
  "async_list_items self item_callback error_callback resps =
     watch_request self # sessions self item_callback error_callback resps"

definition update_item :: "initializer_ResourceHandler \<Rightarrow> item \<Rightarrow> call" where
  "update_item self it =
     UpdateCall (attr_update_item self) (V1ObjectMeta.name (metadata it))
       (namespace (metadata it)) it"

definition new_ResourceHandler :: "string \<Rightarrow> api_fn \<Rightarrow> api_fn \<Rightarrow> initializer_ResourceHandler" where
  "new_ResourceHandler n list_fn update_fn =
     \<lparr>name = n, attr_list_all_items = list_fn, attr_update_item = update_fn,
      attr_request_timeout_seconds = 30\<rparr>"

definition pod_handler :: initializer_ResourceHandler where
  "pod_handler = new_ResourceHandler ''pod''
     (ApiFn ''CoreV1Api'' ''list_pod_for_all_namespaces'')
     (ApiFn ''CoreV1Api'' ''replace_namespaced_pod'')"

definition service_handler :: initializer_ResourceHandler where
  "service_handler = new_ResourceHandler ''service''
     (ApiFn ''CoreV1Api'' ''list_service_for_all_namespaces'')
     (ApiFn ''CoreV1Api'' ''replace_namespaced_service'')"

definition config_map_handler :: initializer_ResourceHandler where
  "config_map_handler = new_ResourceHandler ''configmap''
     (ApiFn ''CoreV1Api'' ''list_config_map_for_all_namespaces'')
     (ApiFn ''CoreV1Api'' ''replace_namespaced_config_map'')"

definition job_handler :: initializer_ResourceHandler where
  "job_handler = new_ResourceHandler ''job''
     (ApiFn ''BatchV1Api'' ''list_job_for_all_namespaces'')
     (ApiFn ''BatchV1Api'' ''replace_namespaced_job'')"

definition deployment_handler :: initializer_ResourceHandler where
  "deployment_handler = new_ResourceHandler ''deployment''
     (ApiFn ''ExtensionsV1beta1Api'' ''list_deployment_for_all_namespaces'')
     (ApiFn ''ExtensionsV1beta1Api'' ''replace_namespaced_deployment'')"

definition daemon_set_handler :: initializer_ResourceHandler where
  "daemon_set_handler = new_ResourceHandler ''daemonset''
     (ApiFn ''ExtensionsV1beta1Api'' ''list_daemon_set_for_all_namespaces'')
     (ApiFn ''ExtensionsV1beta1Api'' ''replace_namespaced_daemon_set'')"

definition cron_job_handler :: initializer_ResourceHandler where
  "cron_job_handler = new_ResourceHandler ''cronjob''
     (ApiFn ''BatchV2alpha1Api'' ''list_cron_job_for_all_namespaces'')
     (ApiFn ''BatchV2alpha1Api'' ''replace_namespaced_cron_job'')"

section \<open>ai2/kubernetes/initializer/async_resource_handler.py\<close>

text \<open>
  The loop of \<open>AsyncResourceHandler.async_process_items\<close>' \<open>handle_response\<close>, lines 50 to
  59, and the handler itself with its \<open>finally\<close> block. The method
  \<open>initializer_controller.handle_single_item\<close> belongs to a module that is not part of the
  sources at hand, so it is a parameter: \<open>None\<close> when it returns, the exception when it raises.
\<close>

fun async_handle_lines :: "(item \<Rightarrow> py_exception option) \<Rightarrow> response \<Rightarrow> session" where
  "async_handle_lines handle_single_item [] = ([], None)"
| "async_handle_lines handle_single_item (Inl e # lines) = ([], Some e)"
| "async_handle_lines handle_single_item (Inr ev # lines) =
     (if event_type ev = ''MODIFIED'' \<or> event_type ev = ''ADDED'' then
        (case handle_single_item (event_object ev) of
           Some e \<Rightarrow> ([HandleSingleItem (event_object ev)], Some e)
         | None \<Rightarrow>
             (case async_handle_lines handle_single_item lines of
                (t, r) \<Rightarrow> (HandleSingleItem (event_object ev) # t, r)))
      else async_handle_lines handle_single_item lines)"

definition async_handle_response :: "(item \<Rightarrow> py_exception option) \<Rightarrow> response \<Rightarrow> session" where
  "async_handle_response handle_single_item resp =
     (case async_handle_lines handle_single_item resp of
        (t, raised) \<Rightarrow> (t @ [Close, ReleaseConn], raised))"

section \<open>Reading traces\<close>

fun is_watch_call :: "effect \<Rightarrow> bool" where
  "is_watch_call (WatchCall f kw) = True"
| "is_watch_call x = False"

fun is_error_callback :: "effect \<Rightarrow> bool" where
  "is_error_callback (ErrorCallback e) = True"
| "is_error_callback x = False"

fun is_item_callback :: "effect \<Rightarrow> bool" where
  "is_item_callback (ItemCallback i) = True"
| "is_item_callback (HandleSingleItem i) = True"
| "is_item_callback x = False"

section \<open>Example objects\<close>

definition initA :: V1Initializer where
  "initA = \<lparr>V1Initializer.name = ''initA''\<rparr>"

definition otherInit :: V1Initializer where
  "otherInit = \<lparr>V1Initializer.name = ''otherInit''\<rparr>"

definition job_with :: "string \<Rightarrow> V1Initializers option \<Rightarrow> item" where
  "job_with n inits =
     \<lparr>metadata = \<lparr>V1ObjectMeta.name = n, namespace = ''default'', initializers = inits\<rparr>,
      spec = ''template''\<rparr>"

definition pending_A_other :: V1Initializers where
  "pending_A_other = \<lparr>pending = Some [initA, otherInit], result = None\<rparr>"

definition pending_other_A :: V1Initializers where
  "pending_other_A = \<lparr>pending = Some [otherInit, initA], result = None\<rparr>"

definition job_a :: item where
  "job_a = job_with ''job-a'' (Some pending_A_other)"

definition job_b :: item where
  "job_b = job_with ''job-b'' (Some pending_other_A)"

definition job_c :: item where
  "job_c = job_with ''job-c'' None"

definition quiet_server :: api_server where
  "quiet_server = \<lparr>list_response = (\<lambda>f. Inr []), update_response = (\<lambda>f n ns body. None)\<rparr>"

text \<open>
  A subclass of \<open>JobHandler\<close> that overrides \<open>handle_item\<close>, and the controller
  \<open>LabelController(initializer_name='initA', handler=...)\<close> built on it.
\<close>

definition controller_on :: "(item \<Rightarrow> handler_effect) \<Rightarrow> LabelController" where
  "controller_on h = \<lparr>initializer_name = ''initA'', handler = JobHandler\<lparr>handle_item := h\<rparr>\<rparr>"

definition controller_with :: "(item \<Rightarrow> handler_result) \<Rightarrow> LabelController" where
  "controller_with h = controller_on (leaves_item_alone h)"

definition bad_image :: V1Status where
  "bad_image = Rejection_init ''bad image'' None 403 None"

text \<open>
  Two overriding methods that change their argument in place.
  \<^verbatim>\<open>
  def handle_item(self, item):            # drops_own_entry
      del item.metadata.initializers.pending[:1]
      return item

  def handle_item(self, item):            # changes_spec_then_rejects
      item.spec = 'changed'
      raise Rejection('bad image', code=403)
  \<close>
\<close>

definition drops_own_entry :: "item \<Rightarrow> handler_effect" where
  "drops_own_entry it =
     (case initializers (metadata it) of
        None \<Rightarrow>
          \<lparr>outcome = Raised (AttributeError ''pending''), item_after = it,
           pending_after = None\<rparr>
      | Some inits \<Rightarrow>
          (case pending inits of
             None \<Rightarrow>
               \<lparr>outcome = Raised (TypeError ''NoneType object does not support item deletion''),
                item_after = it, pending_after = None\<rparr>
           | Some q \<Rightarrow>
               (let it' = it\<lparr>metadata := (metadata it)\<lparr>initializers :=
                            Some (inits\<lparr>pending := Some (drop 1 q)\<rparr>)\<rparr>\<rparr>
                in \<lparr>outcome = Returned it', item_after = it',
                    pending_after = Some (drop 1 q)\<rparr>)))"

definition changes_spec_then_rejects :: "item \<Rightarrow> handler_effect" where
  "changes_spec_then_rejects it =
     \<lparr>outcome = Raised (Rejection bad_image), item_after = it\<lparr>spec := ''changed''\<rparr>,
      pending_after = read_pending it\<rparr>"

definition returns_normally :: "'a \<Rightarrow> py_exception option" where
  "returns_normally x = None"

section \<open>The admission gate and the queue (labelizer/label_controller.py)\<close>

lemma loop_body_gate:
  "loop_body self k it =
     (if gate (initializer_name self) it then admit self k it else ([], None))"
  by (simp add: loop_body_def gate_def split: option.splits list.splits)

lemma gate_iff:
  "gate n it = (\<exists>inits first rest. initializers (metadata it) = Some inits \<and>
      pending inits = Some (first # rest) \<and> V1Initializer.name first = n)"
  by (auto simp: gate_def split: option.splits list.splits)

lemma gate_spec: "gate n it = isEligible_spec it n"
  by (auto simp: gate_def isEligible_spec_def initializerQueue_def
      split: option.splits list.splits)

lemma gate_queue:
  "initializers (metadata it) = Some inits \<Longrightarrow> pending inits = Some (first # rest) \<Longrightarrow>
   V1Initializer.name first = n \<Longrightarrow> gate n it \<and> initializerQueue it = first # rest"
  by (simp add: gate_def initializerQueue_def)

lemma admit_calls_handler: "HandleItem it \<in> set (fst (admit self k it))"
  by (auto simp: admit_def split: sum.splits prod.splits)

lemma admit_returned:
  assumes "outcome (handle_item (handler self) it) = Returned u"
    and "initializers (metadata u) = Some iu"
    and "pending_after (handle_item (handler self) it) = Some q"
  shows "admit self k it =
    ([HandleItem it,
      UpdateCall (patch_namespaced_item (handler self)) (V1ObjectMeta.name (metadata u))
        (namespace (metadata u))
        (u\<lparr>metadata := (metadata u)\<lparr>initializers := Some (iu\<lparr>pending := Some (drop 1 q)\<rparr>)\<rparr>\<rparr>)],
     update_response k (patch_namespaced_item (handler self)) (V1ObjectMeta.name (metadata u))
        (namespace (metadata u))
        (u\<lparr>metadata := (metadata u)\<lparr>initializers := Some (iu\<lparr>pending := Some (drop 1 q)\<rparr>)\<rparr>\<rparr>))"
  using assms
  by (simp add: admit_def handled_def advance_def set_pending_def patch_item_def)

lemma admit_rejected:
  assumes "outcome (handle_item (handler self) it) = Raised (Rejection st)"
    and "item_after (handle_item (handler self) it) = left"
    and "initializers (metadata left) = Some il"
    and "pending_after (handle_item (handler self) it) = Some q"
  shows "admit self k it =
    ([HandleItem it,
      UpdateCall (patch_namespaced_item (handler self)) (V1ObjectMeta.name (metadata left))
        (namespace (metadata left))
        (left\<lparr>metadata := (metadata left)\<lparr>initializers :=
            Some (il\<lparr>result := Some st, pending := Some (drop 1 q)\<rparr>)\<rparr>\<rparr>)],
     update_response k (patch_namespaced_item (handler self))
        (V1ObjectMeta.name (metadata left)) (namespace (metadata left))
        (left\<lparr>metadata := (metadata left)\<lparr>initializers :=
            Some (il\<lparr>result := Some st, pending := Some (drop 1 q)\<rparr>)\<rparr>\<rparr>))"
  using assms
  by (simp add: admit_def handled_def advance_def set_pending_def set_result_def patch_item_def)

lemma admit_update_pending:
  assumes "UpdateCall f n ns body \<in> set (fst (admit self k it))"
  shows "\<exists>i q. pending_after (handle_item (handler self) it) = Some q \<and>
           initializers (metadata body) = Some i \<and> pending i = Some (drop 1 q)"
  using assms
  by (auto simp: admit_def handled_def advance_def set_pending_def set_result_def patch_item_def
      split: sum.splits prod.splits handler_result.splits py_exception.splits option.splits)

lemma admit_update_fn:
  assumes "UpdateCall f n ns body \<in> set (fst (admit self k it))"
  shows "f = patch_namespaced_item (handler self)"
  using assms
  by (auto simp: admit_def handled_def advance_def set_pending_def set_result_def patch_item_def
      split: sum.splits prod.splits handler_result.splits py_exception.splits option.splits)

lemma Rejection_init_fields:
  "message (Rejection_init m r c d) = m"
  "code (Rejection_init m r c d) = c"
  "details (Rejection_init m r c d) = d"
  "status (Rejection_init m r c d) = ''Failure''"
  "reason (Rejection_init m r c d) = (case r of None \<Rightarrow> m | Some x \<Rightarrow> if x = [] then m else x)"
  by (simp_all add: Rejection_init_def split: option.splits)

lemma for_items_filter:
  "for_items self k items = for_items self k (filter (gate (initializer_name self)) items)"
proof (induction items)
  case Nil
  show ?case by simp
next
  case (Cons it items)
  show ?case
  proof (cases "gate (initializer_name self) it")
    case True
    then show ?thesis using Cons.IH by (simp split: prod.splits option.splits)
  next
    case False
    then have "loop_body self k it = ([], None)" by (simp add: loop_body_gate)
    then show ?thesis using False Cons.IH by simp
  qed
qed

lemma gate_examples:
  "gate ''initA'' job_a" "\<not> gate ''initA'' job_b" "\<not> gate ''initA'' job_c"
  by (simp_all add: gate_def job_a_def job_b_def job_c_def job_with_def pending_A_other_def
      pending_other_A_def initA_def otherInit_def)

lemma job_a_fields:
  "initializers (metadata job_a) = Some pending_A_other"
  "pending pending_A_other = Some (initA # [otherInit])"
  "V1Initializer.name initA = initializer_name (controller_with h)"
  "V1Initializer.name initA = initializer_name (controller_on g)"
  "handle_item (handler (controller_on g)) = g"
  "handle_item (handler (controller_with h)) = leaves_item_alone h"
  "patch_namespaced_item (handler (controller_on g)) =
     ApiFn ''BatchV1Api'' ''patch_namespaced_job''"
  "patch_namespaced_item (handler (controller_with h)) =
     ApiFn ''BatchV1Api'' ''patch_namespaced_job''"
  "read_pending job_a = Some [initA, otherInit]"
  by (simp_all add: job_a_def job_with_def pending_A_other_def initA_def controller_with_def
      controller_on_def JobHandler_def read_pending_def)

lemma loop_body_job_a:
  "loop_body (controller_on g) k job_a = admit (controller_on g) k job_a"
  using gate_examples(1) by (simp add: loop_body_gate controller_on_def)

text \<open>
  Claim C1. For every object, the controller lets the object through to the handler exactly
  when \<open>metadata.initializers\<close> is present, its \<open>pending\<close> list is present and non-empty, and
  the first entry's name is the configured initializer name. The condition of the source is
  the specification's \<open>isEligible\<close>, for which an absent \<open>initializers\<close> field and an absent
  \<open>pending\<close> list count as the empty queue; with an empty queue nothing is done.
\<close>

theorem gate_accepts_iff_head_matches:
  "(HandleItem it \<in> set (fst (loop_body self k it))) =
     (\<exists>inits first rest. initializers (metadata it) = Some inits \<and>
        pending inits = Some (first # rest) \<and>
        V1Initializer.name first = initializer_name self)
   \<and> gate n it = isEligible_spec it n
   \<and> (initializerQueue it = [] \<longrightarrow> loop_body self k it = ([], None))"
proof -
  have a: "(HandleItem it \<in> set (fst (loop_body self k it))) = gate (initializer_name self) it"
    by (simp add: loop_body_gate admit_calls_handler)
  have b: "initializerQueue it = [] \<longrightarrow> loop_body self k it = ([], None)"
    by (simp add: loop_body_gate gate_spec isEligible_spec_def)
  show ?thesis
    using a b gate_spec[of n it] unfolding gate_iff[of "initializer_name self" it] by blast
qed

theorem gate_accepts_iff_head_matches_witness:
  "HandleItem job_a \<in> set (fst (loop_body (controller_with Returned) quiet_server job_a))
   \<and> HandleItem job_b \<notin> set (fst (loop_body (controller_with Returned) quiet_server job_b))
   \<and> initializerQueue job_c = []
   \<and> loop_body (controller_with Returned) quiet_server job_c = ([], None)"
proof -
  have q: "initializerQueue job_c = []"
    by (simp add: initializerQueue_def job_c_def job_with_def)
  have b: "\<not> (\<exists>inits first rest. initializers (metadata job_b) = Some inits \<and>
        pending inits = Some (first # rest) \<and>
        V1Initializer.name first = initializer_name (controller_with Returned))"
    by (simp add: job_b_def job_with_def pending_other_A_def otherInit_def controller_with_def
        controller_on_def)
  have a: "\<exists>inits first rest. initializers (metadata job_a) = Some inits \<and>
        pending inits = Some (first # rest) \<and>
        V1Initializer.name first = initializer_name (controller_with Returned)"
    using job_a_fields(1,2,3) by blast
  show ?thesis
    using gate_accepts_iff_head_matches[of job_a "controller_with Returned" quiet_server]
      gate_accepts_iff_head_matches[of job_b "controller_with Returned" quiet_server]
      gate_accepts_iff_head_matches[of job_c "controller_with Returned" quiet_server]
      a b q by blast
qed

text \<open>
  Claim C2, as amended. Let the object's pending list be \<open>first # rest\<close> with \<open>first\<close> named
  after the configured initializer, and let the handler leave that list as it found it, as
  the docstring of \<open>handle_item\<close> requires (the \<open>initializers\<close> object is the caller's to
  update). Then every update call the controller makes for the object carries a body whose
  pending list is exactly \<open>rest\<close>: the head is gone and every other entry is kept, in its
  place. Such an update is made for both outcomes of the handler: when it returns an object
  that has an \<open>initializers\<close> field to write to, and when it raises a \<open>Rejection\<close> and the
  object it was given still has that field.
\<close>

theorem update_pops_exactly_the_head:
  assumes "initializers (metadata it) = Some inits"
    and "pending inits = Some (first # rest)"
    and "V1Initializer.name first = initializer_name self"
    and "pending_after (handle_item (handler self) it) = pending inits"
  shows "(\<forall>f n ns body. UpdateCall f n ns body \<in> set (fst (loop_body self k it)) \<longrightarrow>
            (\<exists>i. initializers (metadata body) = Some i \<and> pending i = Some rest))
       \<and> (\<forall>u iu. outcome (handle_item (handler self) it) = Returned u \<and>
              initializers (metadata u) = Some iu \<longrightarrow>
            (\<exists>f n ns body. fst (loop_body self k it) = [HandleItem it, UpdateCall f n ns body]))
       \<and> (\<forall>st il. outcome (handle_item (handler self) it) = Raised (Rejection st) \<and>
              initializers (metadata (item_after (handle_item (handler self) it))) = Some il \<longrightarrow>
            (\<exists>f n ns body. fst (loop_body self k it) = [HandleItem it, UpdateCall f n ns body]))"
proof -
  from assms have g: "gate (initializer_name self) it"
    using gate_queue by blast
  have lb: "loop_body self k it = admit self k it"
    by (simp add: loop_body_gate g)
  have pa: "pending_after (handle_item (handler self) it) = Some (first # rest)"
    using assms(2,4) by simp
  have 1: "\<exists>i. initializers (metadata body) = Some i \<and> pending i = Some rest"
    if "UpdateCall f n ns body \<in> set (fst (admit self k it))" for f n ns body
    using admit_update_pending[OF that] pa by auto
  have 2: "\<exists>f n ns body. fst (admit self k it) = [HandleItem it, UpdateCall f n ns body]"
    if "outcome (handle_item (handler self) it) = Returned u"
      "initializers (metadata u) = Some iu"
    for u iu
    by (simp add: admit_returned[OF that pa])
  have 3: "\<exists>f n ns body. fst (admit self k it) = [HandleItem it, UpdateCall f n ns body]"
    if "outcome (handle_item (handler self) it) = Raised (Rejection st)"
      "initializers (metadata (item_after (handle_item (handler self) it))) = Some il"
    for st il
    by (simp add: admit_rejected[OF that(1) refl that(2) pa])
  show ?thesis
    unfolding lb using 1 2 3 by blast
qed

theorem update_pops_exactly_the_head_witness:
  "initializers (metadata job_a) = Some pending_A_other
   \<and> pending pending_A_other = Some [initA, otherInit]
   \<and> pending_after (handle_item (handler (controller_with Returned)) job_a) =
       pending pending_A_other
   \<and> (\<exists>f n ns body i.
        fst (loop_body (controller_with Returned) quiet_server job_a) =
          [HandleItem job_a, UpdateCall f n ns body]
        \<and> initializers (metadata body) = Some i \<and> pending i = Some [otherInit])"
proof -
  let ?c = "controller_with Returned"
  have p: "pending_after (handle_item (handler ?c) job_a) = pending pending_A_other"
    by (simp add: job_a_fields leaves_item_alone_def)
  note t = update_pops_exactly_the_head[OF job_a_fields(1) job_a_fields(2) job_a_fields(3) p,
      of quiet_server]
  have r: "outcome (handle_item (handler ?c) job_a) = Returned job_a \<and>
      initializers (metadata job_a) = Some pending_A_other"
    by (simp add: job_a_fields leaves_item_alone_def)
  from t r obtain f n ns body where
    tr: "fst (loop_body ?c quiet_server job_a) = [HandleItem job_a, UpdateCall f n ns body]"
    by blast
  then have "UpdateCall f n ns body \<in> set (fst (loop_body ?c quiet_server job_a))" by simp
  with t obtain i where "initializers (metadata body) = Some i \<and> pending i = Some [otherInit]"
    by blast
  with tr p show ?thesis using job_a_fields(1,2) by blast
qed

text \<open>
  The claim without the condition on the handler fails. The object \<open>job_a\<close> has the queue
  \<open>[initA, otherInit]\<close>; the handler \<open>drops_own_entry\<close> removes the first entry in place and
  returns the item. Line 52 then reads the list through the reference bound before the
  call and drops one more entry: the update carries the empty queue, not \<open>[otherInit]\<close>.
\<close>

theorem update_pops_exactly_the_head_counterexample:
  "read_pending job_a = Some [initA, otherInit]
   \<and> V1Initializer.name initA = initializer_name (controller_on drops_own_entry)
   \<and> fst (loop_body (controller_on drops_own_entry) quiet_server job_a) =
      [HandleItem job_a,
       UpdateCall (ApiFn ''BatchV1Api'' ''patch_namespaced_job'') ''job-a'' ''default''
         (job_with ''job-a'' (Some \<lparr>pending = Some [], result = None\<rparr>))]
   \<and> read_pending (job_with ''job-a'' (Some \<lparr>pending = Some [], result = None\<rparr>)) \<noteq>
       Some [otherInit]"
proof -
  let ?u = "job_with ''job-a'' (Some \<lparr>pending = Some [otherInit], result = None\<rparr>)"
  have e: "drops_own_entry job_a =
      \<lparr>outcome = Returned ?u, item_after = ?u, pending_after = Some [otherInit]\<rparr>"
    by (simp add: drops_own_entry_def job_a_def job_with_def pending_A_other_def Let_def)
  have o: "outcome (handle_item (handler (controller_on drops_own_entry)) job_a) = Returned ?u"
    and pa: "pending_after (handle_item (handler (controller_on drops_own_entry)) job_a) =
      Some [otherInit]"
    by (simp_all add: job_a_fields(5) e)
  have i: "initializers (metadata ?u) = Some \<lparr>pending = Some [otherInit], result = None\<rparr>"
    by (simp add: job_with_def)
  have "fst (loop_body (controller_on drops_own_entry) quiet_server job_a) =
      [HandleItem job_a,
       UpdateCall (ApiFn ''BatchV1Api'' ''patch_namespaced_job'') ''job-a'' ''default''
         (job_with ''job-a'' (Some \<lparr>pending = Some [], result = None\<rparr>))]"
    by (simp add: loop_body_job_a admit_returned[OF o i pa] job_a_fields(7))
       (simp add: job_with_def)
  then show ?thesis
    by (simp add: job_a_fields read_pending_def job_with_def)
qed

text \<open>
  Claim C3. The object \<open>job_a\<close> passes the gate; the handler \<open>changes_spec_then_rejects\<close>
  sets \<open>item.spec\<close> and then raises a \<open>Rejection\<close>. The update call is made and its body has
  the rejection's status in \<open>initializers.result\<close> and the queue without its head, but it is
  not the object as it was listed: the body carries the \<open>spec\<close> the handler wrote.
\<close>

theorem rejected_item_is_sent_as_the_handler_left_it:
  "spec job_a = ''template''
   \<and> fst (loop_body (controller_on changes_spec_then_rejects) quiet_server job_a) =
      [HandleItem job_a,
       UpdateCall (ApiFn ''BatchV1Api'' ''patch_namespaced_job'') ''job-a'' ''default''
         \<lparr>metadata = \<lparr>V1ObjectMeta.name = ''job-a'', namespace = ''default'',
            initializers = Some \<lparr>pending = Some [otherInit], result = Some bad_image\<rparr>\<rparr>,
          spec = ''changed''\<rparr>]"
proof -
  let ?h = "handle_item (handler (controller_on changes_spec_then_rejects)) job_a"
  have o: "outcome ?h = Raised (Rejection bad_image)"
    and l: "item_after ?h = job_a\<lparr>spec := ''changed''\<rparr>"
    and pa: "pending_after ?h = Some [initA, otherInit]"
    by (simp_all add: job_a_fields(5,9) changes_spec_then_rejects_def)
  have i: "initializers (metadata (job_a\<lparr>spec := ''changed''\<rparr>)) = Some pending_A_other"
    by (simp add: job_a_fields(1))
  show ?thesis
    by (simp add: loop_body_job_a admit_rejected[OF o l i pa] job_a_fields(7))
       (simp add: job_a_def job_with_def pending_A_other_def)
qed

text \<open>
  Claim C9. An object that does not pass the gate causes no call at all, neither of the
  handler nor of the update function, and no exception: the loop goes on to the next object.
  An object whose queue does not hold this initializer does not pass the gate. A whole pass
  over a list of objects is the pass over its eligible objects only, so dropping an
  ineligible object from the list changes nothing.
\<close>

theorem ineligible_item_untouched:
  "(\<not> gate (initializer_name self) it \<longrightarrow> loop_body self k it = ([], None))
   \<and> (initializer_name self \<notin> V1Initializer.name ` set (initializerQueue it) \<longrightarrow>
        loop_body self k it = ([], None))
   \<and> for_items self k items = for_items self k (filter (gate (initializer_name self)) items)
   \<and> (\<not> gate (initializer_name self) it \<longrightarrow>
        for_items self k (before @ it # after) = for_items self k (before @ after))"
proof -
  have a: "\<not> gate (initializer_name self) it \<Longrightarrow> loop_body self k it = ([], None)"
    by (simp add: loop_body_gate)
  have b: "initializer_name self \<notin> V1Initializer.name ` set (initializerQueue it) \<Longrightarrow>
      \<not> gate (initializer_name self) it"
    by (cases "initializerQueue it") (auto simp: gate_spec isEligible_spec_def)
  have c: "\<not> gate (initializer_name self) it \<Longrightarrow>
        for_items self k (before @ it # after) = for_items self k (before @ after)"
    using for_items_filter[of self k "before @ it # after"]
      for_items_filter[of self k "before @ after"]
    by simp
  show ?thesis using a b c for_items_filter[of self k items] by blast
qed

theorem ineligible_item_untouched_witness:
  "\<not> gate ''initA'' job_b
   \<and> loop_body (controller_with Returned) quiet_server job_b = ([], None)
   \<and> ''initA'' \<notin> V1Initializer.name ` set (initializerQueue job_c)
   \<and> loop_body (controller_with Returned) quiet_server job_c = ([], None)
   \<and> for_items (controller_with Returned) quiet_server [job_a, job_b] =
       for_items (controller_with Returned) quiet_server [job_a]"
proof -
  have n: "initializer_name (controller_with Returned) = ''initA''"
    by (simp add: controller_with_def controller_on_def)
  have c: "''initA'' \<notin> V1Initializer.name ` set (initializerQueue job_c)"
    by (simp add: initializerQueue_def job_c_def job_with_def)
  show ?thesis
    using ineligible_item_untouched[of "controller_with Returned" job_b quiet_server "[]"
        "[job_a]" "[]"]
      ineligible_item_untouched[of "controller_with Returned" job_c quiet_server "[]" "[]" "[]"]
      gate_examples c
    by (simp add: n)
qed

section \<open>The update call (labelizer/resource_handler.py and the initializer package)\<close>

lemma labelizer_handlers_patch:
  "is_patch_method (patch_namespaced_item PodHandler)"
  "is_patch_method (patch_namespaced_item JobHandler)"
  "is_patch_method (patch_namespaced_item DaemonSetHandler)"
  by (simp_all add: is_patch_method_def PodHandler_def JobHandler_def DaemonSetHandler_def)

lemma initializer_handlers_replace:
  "is_replace_method (attr_update_item pod_handler)"
  "is_replace_method (attr_update_item service_handler)"
  "is_replace_method (attr_update_item config_map_handler)"
  "is_replace_method (attr_update_item job_handler)"
  "is_replace_method (attr_update_item deployment_handler)"
  "is_replace_method (attr_update_item daemon_set_handler)"
  "is_replace_method (attr_update_item cron_job_handler)"
  by (simp_all add: is_replace_method_def new_ResourceHandler_def pod_handler_def
      service_handler_def config_map_handler_def job_handler_def deployment_handler_def
      daemon_set_handler_def cron_job_handler_def)

lemma loop_body_update_fn:
  assumes "UpdateCall f n ns body \<in> set (fst (loop_body self k it))"
  shows "f = patch_namespaced_item (handler self)"
  using assms admit_update_fn[of f n ns body self k it]
  by (simp add: loop_body_gate split: if_splits)

text \<open>
  Claim C4. The handlers of the initializer package are built on \<open>replace_namespaced_\<close>
  functions, as the constructor's note requires. The handlers of the labelizer package,
  which \<open>main.py\<close> runs, are built on \<open>patch_namespaced_\<close> functions: the update that a
  controller on a \<open>JobHandler\<close> subclass sends for the eligible object \<open>job_a\<close> is a call of
  \<open>patch_namespaced_job\<close>, a patch call and not a replace call.
\<close>

theorem labelizer_update_is_a_patch_call:
  "fst (handle_update (controller_with Returned)
         (quiet_server\<lparr>list_response := (\<lambda>f. Inr [job_a])\<rparr>)) =
     [ListCall (ApiFn ''BatchV1Api'' ''list_job_for_all_namespaces'') ''true'',
      HandleItem job_a,
      UpdateCall (ApiFn ''BatchV1Api'' ''patch_namespaced_job'') ''job-a'' ''default''
        (job_with ''job-a'' (Some \<lparr>pending = Some [otherInit], result = None\<rparr>))]
   \<and> is_patch_method (ApiFn ''BatchV1Api'' ''patch_namespaced_job'')
   \<and> \<not> is_replace_method (ApiFn ''BatchV1Api'' ''patch_namespaced_job'')"
proof -
  let ?h = "handle_item (handler (controller_with Returned)) job_a"
  have lb: "loop_body (controller_with Returned) k job_a =
      admit (controller_with Returned) k job_a" for k
    using gate_examples(1) by (simp add: loop_body_gate controller_with_def controller_on_def)
  have r: "outcome ?h = Returned job_a"
    and pa: "pending_after ?h = Some [initA, otherInit]"
    by (simp_all add: job_a_fields leaves_item_alone_def)
  show ?thesis
    by (simp add: handle_update_def list_all_items_def lb
        admit_returned[OF r job_a_fields(1) pa] job_a_fields(8)
        is_patch_method_def is_replace_method_def)
       (simp add: controller_with_def controller_on_def JobHandler_def job_a_def job_with_def
        pending_A_other_def quiet_server_def)
qed

text \<open>
  Claim C10. The body of the default \<open>handle_item\<close> reads \<open>item.metadtata\<close> while it builds
  the message of the \<open>Rejection\<close>. No object has that attribute, so for every item the call
  raises \<open>AttributeError\<close>; it never returns an object, and it never raises a \<open>Rejection\<close>.
\<close>

theorem default_handle_item_raises_AttributeError:
  "ResourceHandler_handle_item it = Raised (AttributeError ''metadtata'')
   \<and> (\<forall>u. ResourceHandler_handle_item it \<noteq> Returned u)
   \<and> (\<forall>st. ResourceHandler_handle_item it \<noteq> Raised (Rejection st))"
  by (simp add: ResourceHandler_handle_item_def item_getattr_def)

section \<open>The watcher (ai2/kubernetes/initializer)\<close>

lemma handle_lines_effects:
  "x \<in> set (fst (handle_lines cb l resp)) \<Longrightarrow> is_item_callback x"
  by (induction cb l resp arbitrary: x rule: handle_lines.induct)
     (auto split: if_splits option.splits prod.splits)

lemma async_handle_lines_effects:
  "x \<in> set (fst (async_handle_lines h resp)) \<Longrightarrow> is_item_callback x"
  by (induction h resp arbitrary: x rule: async_handle_lines.induct)
     (auto split: if_splits option.splits prod.splits)

lemma filter_none: "(\<And>x. x \<in> set xs \<Longrightarrow> \<not> P x) \<Longrightarrow> filter P xs = []"
  by (induction xs) auto

lemma handle_lines_no_watch: "filter is_watch_call (fst (handle_lines cb l resp)) = []"
proof (rule filter_none)
  fix x assume "x \<in> set (fst (handle_lines cb l resp))"
  then have "is_item_callback x" by (rule handle_lines_effects)
  then show "\<not> is_watch_call x" by (cases x) auto
qed

lemma handle_lines_no_error: "filter is_error_callback (fst (handle_lines cb l resp)) = []"
proof (rule filter_none)
  fix x assume "x \<in> set (fst (handle_lines cb l resp))"
  then have "is_item_callback x" by (rule handle_lines_effects)
  then show "\<not> is_error_callback x" by (cases x) auto
qed

lemma handle_response_timeout:
  assumes "snd (handle_lines cb None resp) = Some ReadTimeoutError"
  shows "handle_response self cb ecb resp =
    (fst (handle_lines cb None resp) @ [Close, ReleaseConn, watch_request self], None)"
  using assms
  by (cases "handle_lines cb None resp") (simp add: handle_response_def except_clauses_def)

lemma sessions_timeouts:
  "(\<And>r. r \<in> set resps \<Longrightarrow> snd (handle_lines cb None r) = Some ReadTimeoutError) \<Longrightarrow>
   filter is_watch_call (sessions self cb ecb resps) =
     replicate (length resps) (watch_request self)"
proof (induction resps)
  case Nil
  show ?case by simp
next
  case (Cons r rs)
  have t: "snd (handle_lines cb None r) = Some ReadTimeoutError" using Cons.prems by simp
  have "filter is_watch_call (sessions self cb ecb rs) =
      replicate (length rs) (watch_request self)"
    using Cons by simp
  then show ?case
    by (simp add: handle_response_timeout[OF t] handle_lines_no_watch watch_request_def)
qed

text \<open>
  Claim C5. A stream whose first event is \<open>DELETED\<close>, followed by an \<open>ADDED\<close> event: at the
  first event the \<open>else\<close> branch reads the local variable \<open>item\<close>, which no event has bound
  yet. The \<open>UnboundLocalError\<close> goes to the error callback, the connection is closed, and a
  new watch request is made; the item callback is never called for the \<open>ADDED\<close> event that
  follows on the same stream. After an \<open>ADDED\<close> event the same \<open>DELETED\<close> event is passed
  over and the stream is read on.
\<close>

theorem other_event_before_any_item_ends_the_stream:
  "handle_response pod_handler returns_normally returns_normally
      [Inr (Event ''DELETED'' job_a), Inr (Event ''ADDED'' job_b)] =
     ([ErrorCallback (UnboundLocalError ''item''), Close, ReleaseConn,
       watch_request pod_handler], None)
   \<and> handle_response pod_handler returns_normally returns_normally
      [Inr (Event ''ADDED'' job_c), Inr (Event ''DELETED'' job_a), Inr (Event ''ADDED'' job_b)] =
     ([ItemCallback job_c, ItemCallback job_b, Close, ReleaseConn,
       watch_request pod_handler], None)"
  by (simp add: handle_response_def except_clauses_def returns_normally_def)

text \<open>
  Claim C6. When the loop over the stream ends with \<open>ReadTimeoutError\<close>, the handler makes
  no call of the error callback; after the item callbacks made so far it closes the
  response, releases the connection and then makes one watch request, and no other. That
  request is the very request \<open>async_list_items\<close> made at first: same list function, same
  keyword arguments. There is no count and no delay: when every one of \<open>resps\<close> ends with the
  timeout, the requests made are the first one and one more per response, all the same.
\<close>

theorem timeout_reissues_the_same_watch:
  assumes "snd (handle_lines item_callback None resp) = Some ReadTimeoutError"
  shows "handle_response self item_callback error_callback resp =
           (fst (handle_lines item_callback None resp) @ [Close, ReleaseConn, watch_request self],
            None)
       \<and> filter is_error_callback
           (fst (handle_response self item_callback error_callback resp)) = []
       \<and> filter is_watch_call (fst (handle_response self item_callback error_callback resp)) =
           [watch_request self]
       \<and> async_list_items self item_callback error_callback [] = [watch_request self]
       \<and> ((\<forall>r \<in> set resps. snd (handle_lines item_callback None r) = Some ReadTimeoutError) \<longrightarrow>
            filter is_watch_call (async_list_items self item_callback error_callback resps) =
              replicate (Suc (length resps)) (watch_request self))"
proof -
  note h = handle_response_timeout[OF assms, of self error_callback]
  have 2: "filter is_error_callback
      (fst (handle_response self item_callback error_callback resp)) = []"
    by (simp add: h handle_lines_no_error watch_request_def)
  have 3: "filter is_watch_call (fst (handle_response self item_callback error_callback resp)) =
           [watch_request self]"
    by (simp add: h handle_lines_no_watch watch_request_def)
  have 4: "async_list_items self item_callback error_callback [] = [watch_request self]"
    by (simp add: async_list_items_def)
  have 5: "filter is_watch_call (async_list_items self item_callback error_callback resps) =
              replicate (Suc (length resps)) (watch_request self)"
    if "\<forall>r \<in> set resps. snd (handle_lines item_callback None r) = Some ReadTimeoutError"
    using sessions_timeouts[of resps item_callback self error_callback] that
    by (simp add: async_list_items_def watch_request_def)
  show ?thesis using h 2 3 4 5 by blast
qed

theorem timeout_reissues_the_same_watch_witness:
  "snd (handle_lines returns_normally None [Inr (Event ''ADDED'' job_a), Inl ReadTimeoutError]) =
     Some ReadTimeoutError
   \<and> handle_response pod_handler returns_normally returns_normally
       [Inr (Event ''ADDED'' job_a), Inl ReadTimeoutError] =
     ([ItemCallback job_a, Close, ReleaseConn, watch_request pod_handler], None)
   \<and> filter is_watch_call (async_list_items pod_handler returns_normally returns_normally
       [[Inr (Event ''ADDED'' job_a), Inl ReadTimeoutError], [Inl ReadTimeoutError]]) =
     [watch_request pod_handler, watch_request pod_handler, watch_request pod_handler]"
proof -
  have a: "snd (handle_lines returns_normally None
      [Inr (Event ''ADDED'' job_a), Inl ReadTimeoutError]) = Some ReadTimeoutError"
    by (simp add: returns_normally_def)
  have b: "\<forall>r \<in> set [[Inr (Event ''ADDED'' job_a), Inl ReadTimeoutError], [Inl ReadTimeoutError]].
      snd (handle_lines returns_normally None r) = Some ReadTimeoutError"
    by (simp add: returns_normally_def)
  have c: "fst (handle_lines returns_normally None
      [Inr (Event ''ADDED'' job_a), Inl ReadTimeoutError]) = [ItemCallback job_a]"
    by (simp add: returns_normally_def)
  have d: "replicate (Suc (length [[Inr (Event ''ADDED'' job_a), Inl ReadTimeoutError],
      [Inl ReadTimeoutError]])) (watch_request pod_handler) =
      [watch_request pod_handler, watch_request pod_handler, watch_request pod_handler]"
    by (simp add: numeral_2_eq_2)
  show ?thesis
    using timeout_reissues_the_same_watch[OF a, of pod_handler returns_normally
        "[[Inr (Event ''ADDED'' job_a), Inl ReadTimeoutError], [Inl ReadTimeoutError]]"]
      a b c d
    by simp
qed

text \<open>
  Claim C7. A stream that ends with a connection error: the error goes to the error
  callback and the connection is closed and released, and then the handler itself makes a
  new watch request, although the error callback has returned without asking for one.
\<close>

theorem fatal_error_path_reissues_the_watch:
  "handle_response pod_handler returns_normally returns_normally
      [Inl (ProtocolError ''Connection reset by peer'')] =
     ([ErrorCallback (ProtocolError ''Connection reset by peer''), Close, ReleaseConn,
       watch_request pod_handler], None)
   \<and> filter is_watch_call (async_list_items pod_handler returns_normally returns_normally
       [[Inl (ProtocolError ''Connection reset by peer'')]]) =
     [watch_request pod_handler, watch_request pod_handler]"
  by (simp add: async_list_items_def handle_response_def except_clauses_def
      returns_normally_def watch_request_def)

text \<open>
  Claim C8. Whatever the stream holds and whatever the callbacks do, the trace of a
  response handler is: callbacks only, then \<open>response.close()\<close>, then
  \<open>response.release_conn()\<close>, then at most the one new watch request, and nothing at all
  after the release when an exception leaves the handler. This holds for the handler of
  \<open>ResourceHandler.async_list_items\<close> and for the handler of
  \<open>AsyncResourceHandler.async_process_items\<close>, which makes no new request.
\<close>

theorem connection_released_on_every_path:
  "(\<exists>pre post.
      fst (handle_response self item_callback error_callback resp) =
        pre @ [Close, ReleaseConn] @ post
      \<and> (\<forall>x \<in> set pre. is_item_callback x \<or> is_error_callback x)
      \<and> (post = [] \<or> post = [watch_request self])
      \<and> (snd (handle_response self item_callback error_callback resp) \<noteq> None \<longrightarrow> post = []))
   \<and> (\<exists>pre.
      fst (async_handle_response handle_single_item resp) = pre @ [Close, ReleaseConn]
      \<and> (\<forall>x \<in> set pre. is_item_callback x))"
proof
  obtain t raised where hl: "handle_lines item_callback None resp = (t, raised)"
    by (cases "handle_lines item_callback None resp")
  obtain t' r' where ec: "except_clauses error_callback raised = (t', r')"
    by (cases "except_clauses error_callback raised")
  have t: "\<forall>x \<in> set t. is_item_callback x"
    using handle_lines_effects[of _ item_callback None resp] by (simp add: hl)
  have t': "\<forall>x \<in> set t'. is_error_callback x"
    using ec by (auto simp: except_clauses_def split: option.splits if_splits)
  have pre: "\<forall>x \<in> set (t @ t'). is_item_callback x \<or> is_error_callback x"
    using t t' by auto
  show "\<exists>pre post.
      fst (handle_response self item_callback error_callback resp) =
        pre @ [Close, ReleaseConn] @ post
      \<and> (\<forall>x \<in> set pre. is_item_callback x \<or> is_error_callback x)
      \<and> (post = [] \<or> post = [watch_request self])
      \<and> (snd (handle_response self item_callback error_callback resp) \<noteq> None \<longrightarrow> post = [])"
  proof (cases r')
    case None
    then have "fst (handle_response self item_callback error_callback resp) =
        (t @ t') @ [Close, ReleaseConn] @ [watch_request self]"
      and "snd (handle_response self item_callback error_callback resp) = None"
      by (simp_all add: handle_response_def hl ec)
    then show ?thesis using pre by blast
  next
    case (Some e)
    then have "fst (handle_response self item_callback error_callback resp) =
        (t @ t') @ [Close, ReleaseConn] @ []"
      by (simp add: handle_response_def hl ec)
    then show ?thesis using pre by blast
  qed
next
  obtain t raised where hl: "async_handle_lines handle_single_item resp = (t, raised)"
    by (cases "async_handle_lines handle_single_item resp")
  have t: "\<forall>x \<in> set t. is_item_callback x"
    using async_handle_lines_effects[of _ handle_single_item resp] by (simp add: hl)
  have "fst (async_handle_response handle_single_item resp) = t @ [Close, ReleaseConn]"
    by (simp add: async_handle_response_def hl)
  then show "\<exists>pre.
      fst (async_handle_response handle_single_item resp) = pre @ [Close, ReleaseConn]
      \<and> (\<forall>x \<in> set pre. is_item_callback x)"
    using t by blast
qed

theorem connection_released_on_every_path_witness:
  "fst (handle_response pod_handler (\<lambda>it. Some KeyboardInterrupt) returns_normally
         [Inr (Event ''ADDED'' job_a), Inr (Event ''ADDED'' job_b)]) =
     [ItemCallback job_a] @ [Close, ReleaseConn] @ []
   \<and> snd (handle_response pod_handler (\<lambda>it. Some KeyboardInterrupt) returns_normally
         [Inr (Event ''ADDED'' job_a), Inr (Event ''ADDED'' job_b)]) = Some KeyboardInterrupt
   \<and> fst (async_handle_response (\<lambda>it. Some (ValueError ''bad''))
         [Inr (Event ''ADDED'' job_a), Inr (Event ''ADDED'' job_b)]) =
     [HandleSingleItem job_a] @ [Close, ReleaseConn]"
  using connection_released_on_every_path[of pod_handler "\<lambda>it. Some KeyboardInterrupt"
      returns_normally "[Inr (Event ''ADDED'' job_a), Inr (Event ''ADDED'' job_b)]"
      "\<lambda>it. Some (ValueError ''bad'')"]
  by (simp add: handle_response_def except_clauses_def async_handle_response_def)

end
